theory Spec2Isabelle
  imports Complex_Main "HOL-Library.Word"
begin

section \<open>JavaScript values used by the page component\<close>

text \<open>
  The component \<^verbatim>\<open>Index\<close> of \<^verbatim>\<open>src/pages/Index.tsx\<close> is embedded as functions on a pair
  of the component's React state and the browser around it.

  A JavaScript string is a sequence of UTF-16 code units: \<^verbatim>\<open>.length\<close> counts them and
  \<^verbatim>\<open>===\<close> compares them one by one. The literals of the source are all ASCII and are
  written with \<open>js\<close>.
\<close>

type_synonym code_unit = "16 word"

type_synonym jsstring = "code_unit list"

definition js :: "string \<Rightarrow> jsstring" where
  "js cs = map of_char cs"

text \<open>
  A template literal prints a non-negative integer Number below \<open>10^21\<close> in decimal digits;
  \<^verbatim>\<open>Date.now()\<close> is such a number.
\<close>

definition digit :: "nat \<Rightarrow> code_unit" where
  "digit d = of_nat (48 + d)"

fun decimal :: "nat \<Rightarrow> jsstring" where
  "decimal n = (if n < 10 then [digit n] else decimal (n div 10) @ [digit (n mod 10)])"

declare decimal.simps [simp del]

text \<open>
  \<^verbatim>\<open>Math.round(x)\<close> is the integer closest to \<open>x\<close>, the larger one at a tie. Numbers
  are modelled as reals: NaN and the infinities are left out. The product
  \<^verbatim>\<open>m.progress * 100\<close> is a floating-point product, the exact product rounded to a
  Number; the rounding is the parameter \<open>fl\<close> of the functions below (the identity in
  exact arithmetic).
\<close>

definition Math_round :: "real \<Rightarrow> int" where
  "Math_round x = \<lfloor>x + 1 / 2\<rfloor>"

text \<open>
  The class \<^verbatim>\<open>\s\<close> of a regular expression: the white space and line terminator code
  points of ECMAScript.
\<close>

definition is_space :: "code_unit \<Rightarrow> bool" where
  "is_space u \<longleftrightarrow>
     u \<in> set [0x09, 0x0A, 0x0B, 0x0C, 0x0D, 0x20, 0xA0, 0x1680,
              0x2028, 0x2029, 0x202F, 0x205F, 0x3000, 0xFEFF]
     \<or> (0x2000 \<le> u \<and> u \<le> 0x200A)"

text \<open>
  \<^verbatim>\<open>s.split(/\s+/)\<close>: the pieces of \<open>s\<close> between the maximal runs of white space. A
  run at the start or at the end of \<open>s\<close> leaves an empty piece there, and the empty
  string gives one empty piece.
\<close>

function split_ws :: "jsstring \<Rightarrow> jsstring list" where
  "split_ws s =
     (case dropWhile (\<lambda>u. \<not> is_space u) s of
        [] \<Rightarrow> [s]
      | _ # r \<Rightarrow> takeWhile (\<lambda>u. \<not> is_space u) s # split_ws (dropWhile is_space r))"
  by pat_completeness auto

termination
proof (relation "measure length")
  show "wf (measure (length :: jsstring \<Rightarrow> nat))"
    by simp
next
  fix s :: jsstring and x r
  assume d: "dropWhile (\<lambda>u. \<not> is_space u) s = x # r"
  have "length (dropWhile is_space r) \<le> length r"
    by (rule length_dropWhile_le)
  also have "length r < length (dropWhile (\<lambda>u. \<not> is_space u) s)"
    by (simp add: d)
  also have "\<dots> \<le> length s"
    by (rule length_dropWhile_le)
  finally show "(dropWhile is_space r, s) \<in> measure length"
    by simp
qed

declare split_ws.simps [simp del]

section \<open>The browser and the collaborators\<close>

record File =
  file_name :: jsstring
  file_type :: jsstring
  file_size :: nat

record Blob =
  blob_parts :: "jsstring list"
  blob_type :: jsstring

datatype url_object = FileObject File | BlobObject Blob

datatype toast_variant = Unset | Destructive

record Toast =
  title :: jsstring
  description :: jsstring
  variant :: toast_variant

datatype js_error = JsError jsstring

text \<open>
  What lies outside the component: the notifications shown, the console, the store of
  object URLs (\<^verbatim>\<open>URL.createObjectURL\<close> registers an object under a new URL,
  \<^verbatim>\<open>URL.revokeObjectURL\<close> removes it; the calls to the latter are logged in
  \<open>revoked\<close>), the clipboard, the files saved by a click on a download link, the calls
  made to \<^verbatim>\<open>Tesseract.recognize\<close>, and the values passed to \<^verbatim>\<open>setProgress\<close>, in the
  order of the calls: what the component publishes as its progress.
\<close>

record world =
  toasts :: "Toast list"
  console :: "(jsstring \<times> js_error) list"
  url_store :: "(jsstring \<times> url_object) list"
  url_counter :: nat
  revoked :: "jsstring list"
  clipboard :: jsstring
  downloads :: "(jsstring \<times> url_object) list"
  recognize_calls :: "(File \<times> jsstring) list"
  setProgress_calls :: "int list"

definition toast :: "Toast \<Rightarrow> world \<Rightarrow> world" where
  "toast t w = w\<lparr>toasts := toasts w @ [t]\<rparr>"

definition console_error :: "jsstring \<Rightarrow> js_error \<Rightarrow> world \<Rightarrow> world" where
  "console_error label e w = w\<lparr>console := console w @ [(label, e)]\<rparr>"

text \<open>The browser names the \<open>n\<close>-th object URL of the session; the name is never empty.\<close>

definition createObjectURL :: "url_object \<Rightarrow> world \<Rightarrow> jsstring \<times> world" where
  "createObjectURL obj w =
     (let url = js ''blob:'' @ decimal (url_counter w)
      in (url, w\<lparr>url_store := (url, obj) # url_store w,
                  url_counter := Suc (url_counter w)\<rparr>))"

definition revokeObjectURL :: "jsstring \<Rightarrow> world \<Rightarrow> world" where
  "revokeObjectURL url w =
     w\<lparr>url_store := filter (\<lambda>(k, _). k \<noteq> url) (url_store w),
       revoked := revoked w @ [url]\<rparr>"

text \<open>
  A click on an anchor with a \<^verbatim>\<open>download\<close> attribute saves the object its
  \<^verbatim>\<open>href\<close> names under that file name; a URL that names nothing saves nothing.
\<close>

definition anchor_click :: "jsstring \<Rightarrow> jsstring \<Rightarrow> world \<Rightarrow> world" where
  "anchor_click href download w =
     (case map_of (url_store w) href of
        None \<Rightarrow> w
      | Some obj \<Rightarrow> w\<lparr>downloads := downloads w @ [(download, obj)]\<rparr>)"

text \<open>
  One call of \<^verbatim>\<open>Tesseract.recognize\<close>: the messages it passes to the logger, then how
  its promise settles.
\<close>

record LoggerMessage =
  status :: jsstring
  m_progress :: real

datatype recognize_outcome = Resolve jsstring | Reject js_error

definition recognize :: "File \<Rightarrow> jsstring \<Rightarrow> world \<Rightarrow> world" where
  "recognize f lang w = w\<lparr>recognize_calls := recognize_calls w @ [(f, lang)]\<rparr>"

section \<open>The component\<close>

record state =
  "file" :: "File option"
  previewUrl :: jsstring
  extractedText :: jsstring
  isProcessing :: bool
  language :: jsstring
  progress :: int

definition init_state :: state where
  "init_state = \<lparr>file = None, previewUrl = [], extractedText = [], isProcessing = False,
                  language = js ''eng'', progress = 0\<rparr>"

definition init_world :: world where
  "init_world = \<lparr>toasts = [], console = [], url_store = [], url_counter = 0, revoked = [],
                  clipboard = [], downloads = [], recognize_calls = [],
                  setProgress_calls = []\<rparr>"

definition validTypes :: "jsstring list" where
  "validTypes = [js ''image/jpeg'', js ''image/jpg'', js ''image/png'', js ''application/pdf'']"

definition toast_invalid_type :: Toast where
  "toast_invalid_type =
     \<lparr>title = js ''Invalid file type'',
      description = js ''Please upload JPG, PNG, or PDF files only.'',
      variant = Destructive\<rparr>"

definition toast_too_large :: Toast where
  "toast_too_large =
     \<lparr>title = js ''File too large'',
      description = js ''Please upload files smaller than 10MB.'',
      variant = Destructive\<rparr>"

definition toast_uploaded :: Toast where
  "toast_uploaded =
     \<lparr>title = js ''File uploaded successfully'',
      description = js ''Ready to extract text. Click \"Extract Text\" to begin.'',
      variant = Unset\<rparr>"

definition toast_extracted :: Toast where
  "toast_extracted =
     \<lparr>title = js ''Text extracted successfully!'',
      description = js ''You can now edit, copy, or download the text.'',
      variant = Unset\<rparr>"

definition toast_extraction_failed :: Toast where
  "toast_extraction_failed =
     \<lparr>title = js ''Extraction failed'',
      description = js ''There was an error processing your image. Please try again.'',
      variant = Destructive\<rparr>"

definition toast_copied :: Toast where
  "toast_copied =
     \<lparr>title = js ''Text copied!'',
      description = js ''The extracted text has been copied to your clipboard.'',
      variant = Unset\<rparr>"

definition toast_copy_failed :: Toast where
  "toast_copy_failed =
     \<lparr>title = js ''Copy failed'',
      description = js ''Unable to copy text to clipboard.'',
      variant = Destructive\<rparr>"

definition toast_download_started :: Toast where
  "toast_download_started =
     \<lparr>title = js ''Download started'',
      description = js ''Your text file is being downloaded.'',
      variant = Unset\<rparr>"

subsection \<open>handleFile\<close>

fun handleFile :: "File \<Rightarrow> state \<times> world \<Rightarrow> state \<times> world" where
  "handleFile selectedFile (s, w) =
     (if file_type selectedFile \<notin> set validTypes then (s, toast toast_invalid_type w)
      else if file_size selectedFile > 10 * 1024 * 1024 then (s, toast toast_too_large w)
      else
        (let (url, w1) = createObjectURL (FileObject selectedFile) w;
             s1 = s\<lparr>file := Some selectedFile, previewUrl := url, extractedText := []\<rparr>
         in (s1, toast toast_uploaded w1)))"

subsection \<open>extractText\<close>

text \<open>
  \<^verbatim>\<open>setProgress(v)\<close> stores \<open>v\<close> in the progress field; the call is recorded.
\<close>

fun setProgress :: "int \<Rightarrow> state \<times> world \<Rightarrow> state \<times> world" where
  "setProgress v (s, w) =
     (s\<lparr>progress := v\<rparr>, w\<lparr>setProgress_calls := setProgress_calls w @ [v]\<rparr>)"

text \<open>The logger passed to the engine: one call per message.\<close>

fun logger :: "(real \<Rightarrow> real) \<Rightarrow> LoggerMessage \<Rightarrow> state \<times> world \<Rightarrow> state \<times> world" where
  "logger fl m (s, w) =
     (if status m = js ''recognizing text''
      then setProgress (Math_round (fl (m_progress m * 100))) (s, w)
      else (s, w))"

text \<open>
  One run of \<^verbatim>\<open>extractText\<close> from the click to the end of its \<^verbatim>\<open>finally\<close> block,
  with the messages and the outcome of the engine call it awaits.
\<close>

fun extractText ::
  "(real \<Rightarrow> real) \<Rightarrow> LoggerMessage list \<Rightarrow> recognize_outcome \<Rightarrow> state \<times> world \<Rightarrow> state \<times> world"
where
  "extractText fl msgs outcome (s, w) =
     (case file s of
        None \<Rightarrow> (s, w)
      | Some f \<Rightarrow>
          (let (s0, w0) = setProgress 0 (s\<lparr>isProcessing := True\<rparr>, w);
               s1 = s0\<lparr>extractedText := []\<rparr>;
               w1 = recognize f (language s) w0;
               (s2, w2) = foldl (\<lambda>sw m. logger fl m sw) (s1, w1) msgs;
               (s3, w3) =
                 (case outcome of
                    Resolve text \<Rightarrow> (s2\<lparr>extractedText := text\<rparr>, toast toast_extracted w2)
                  | Reject e \<Rightarrow>
                      (s2, toast toast_extraction_failed (console_error (js ''OCR Error:'') e w2)))
           in setProgress 0 (s3\<lparr>isProcessing := False\<rparr>, w3)))"


subsection \<open>copyToClipboard and downloadText\<close>

text \<open>
  \<open>granted\<close> says whether \<^verbatim>\<open>navigator.clipboard.writeText\<close> resolves; \<open>now\<close> is the value
  of \<^verbatim>\<open>Date.now()\<close>. The anchor of \<^verbatim>\<open>downloadText\<close> is added to the document before the
  click and removed after it, which leaves the document as it was. The bytes of a blob
  are the browser's UTF-8 encoding of its parts; the blob is kept as its parts and type.
\<close>

fun copyToClipboard :: "bool \<Rightarrow> state \<times> world \<Rightarrow> state \<times> world" where
  "copyToClipboard granted (s, w) =
     (if extractedText s = [] then (s, w)
      else if granted then (s, toast toast_copied (w\<lparr>clipboard := extractedText s\<rparr>))
      else (s, toast toast_copy_failed w))"

fun downloadText :: "nat \<Rightarrow> state \<times> world \<Rightarrow> state \<times> world" where
  "downloadText now (s, w) =
     (if extractedText s = [] then (s, w)
      else
        (let blob = \<lparr>blob_parts = [extractedText s], blob_type = js ''text/plain''\<rparr>;
             (url, w1) = createObjectURL (BlobObject blob) w;
             w2 = anchor_click url (js ''extracted-text-'' @ decimal now @ js ''.txt'') w1;
             w3 = revokeObjectURL url w2
         in (s, toast toast_download_started w3)))"

subsection \<open>The counts under the text area\<close>

text \<open>
  The line \<^verbatim>\<open>{extractedText.split(/\s+/).length} words, {extractedText.length} characters\<close>
  is rendered only when the text is not empty.
\<close>

definition stats :: "state \<Rightarrow> (nat \<times> nat) option" where
  "stats s =
     (if extractedText s = [] then None
      else Some (length (split_ws (extractedText s)), length (extractedText s)))"

section \<open>The specification's word count\<close>

text \<open>
  The word count in the words of the specification: the number of white-space-delimited
  pieces that are not empty.
\<close>

definition spec_word_count :: "jsstring \<Rightarrow> nat" where
  "spec_word_count t = length (filter (\<lambda>p. p \<noteq> []) (split_ws t))"

section \<open>Sample inputs\<close>

definition sample_png :: File where
  "sample_png = \<lparr>file_name = js ''scan.png'', file_type = js ''image/png'', file_size = 5242880\<rparr>"

definition other_png :: File where
  "other_png = \<lparr>file_name = js ''page2.png'', file_type = js ''image/png'', file_size = 2048\<rparr>"

definition large_jpeg :: File where
  "large_jpeg = \<lparr>file_name = js ''poster.jpeg'', file_type = js ''image/jpeg'', file_size = 12582912\<rparr>"

definition jpg_alias :: File where
  "jpg_alias = \<lparr>file_name = js ''photo.jpg'', file_type = js ''image/jpg'', file_size = 1024\<rparr>"

definition large_gif :: File where
  "large_gif = \<lparr>file_name = js ''anim.gif'', file_type = js ''image/gif'', file_size = 12582912\<rparr>"

definition sample_msgs :: "LoggerMessage list" where
  "sample_msgs =
     [\<lparr>status = js ''loading tesseract core'', m_progress = 1\<rparr>,
      \<lparr>status = js ''recognizing text'', m_progress = 1 / 10\<rparr>,
      \<lparr>status = js ''recognizing text'', m_progress = 11 / 20\<rparr>,
      \<lparr>status = js ''recognizing text'', m_progress = 1\<rparr>]"


section \<open>Auxiliary lemmas\<close>

lemmas eval_defs =
  sample_png_def other_png_def large_jpeg_def jpg_alias_def large_gif_def
  init_state_def init_world_def validTypes_def js_def createObjectURL_def toast_def Let_def
  recognize_def console_error_def case_prod_beta

lemma decimal_0: "decimal 0 = [48]"
  by (simp add: decimal.simps digit_def)

lemma decimal_1: "decimal (Suc 0) = [49]"
  by (simp add: decimal.simps digit_def)

lemma logger_extractedText: "extractedText (fst (logger fl m sw)) = extractedText (fst sw)"
  by (cases sw) simp

lemma foldl_logger_extractedText:
  "extractedText (fst (foldl (\<lambda>sw m. logger fl m sw) sw msgs)) = extractedText (fst sw)"
  by (induction msgs arbitrary: sw) (simp_all add: logger_extractedText)












lemma split_ws_pieces_nonempty:
  "s \<noteq> [] \<Longrightarrow> \<not> is_space (hd s) \<Longrightarrow> \<not> is_space (last s) \<Longrightarrow> [] \<notin> set (split_ws s)"
proof (induction s rule: split_ws.induct)
  case (1 s)
  let ?P = "\<lambda>u. \<not> is_space u"
  show ?case
  proof (cases "dropWhile ?P s")
    case Nil
    have "split_ws s = [s]"
      by (subst split_ws.simps) (simp only: Nil list.case)
    with "1.prems"(1) show ?thesis
      by simp
  next
    case (Cons x r)
    have sp: "is_space x"
      using hd_dropWhile [of ?P s] Cons by simp
    have tk: "takeWhile ?P s \<noteq> []"
      using "1.prems"(1,2) by (simp add: takeWhile_eq_Nil_iff)
    have "s = takeWhile ?P s @ x # r"
      using takeWhile_dropWhile_id [of ?P s] Cons by simp
    then have ls: "last s = last (x # r)"
      by (metis last_appendR list.distinct(1))
    have r: "r \<noteq> []"
      using ls sp "1.prems"(3) by auto
    then have lr: "last r = last s"
      using ls by simp
    let ?s' = "dropWhile is_space r"
    have ne: "?s' \<noteq> []"
      using r lr "1.prems"(3) last_in_set [of r] by (auto simp: dropWhile_eq_Nil_conv)
    have hd': "\<not> is_space (hd ?s')"
      using hd_dropWhile [of is_space r] ne by simp
    have "r = takeWhile is_space r @ ?s'"
      by simp
    then have "last r = last ?s'"
      using ne by (metis last_appendR)
    then have last': "\<not> is_space (last ?s')"
      using lr "1.prems"(3) by simp
    have "[] \<notin> set (split_ws ?s')"
      using Cons ne hd' last' by (intro "1.IH") simp_all
    moreover have "split_ws s = takeWhile ?P s # split_ws ?s'"
      by (subst split_ws.simps) (simp only: Cons list.case)
    ultimately show ?thesis
      using tk by auto
  qed
qed

lemma stats_agrees_without_outer_space:
  assumes "extractedText s \<noteq> []"
    and "\<not> is_space (hd (extractedText s))" and "\<not> is_space (last (extractedText s))"
  shows "stats s = Some (spec_word_count (extractedText s), length (extractedText s))"
proof -
  have "filter (\<lambda>p. p \<noteq> []) (split_ws (extractedText s)) = split_ws (extractedText s)"
    using split_ws_pieces_nonempty [OF assms] by (auto intro: filter_True)
  then show ?thesis
    using assms(1) by (simp add: stats_def spec_word_count_def)
qed

lemma stats_hello_world:
  "stats (init_state\<lparr>extractedText := js ''hello world''\<rparr>) = Some (2, 11)"
  by (simp add: stats_def split_ws.simps js_def is_space_def init_state_def)

section \<open>Claims\<close>

text \<open>
  C1 (as amended). When an artifact is present and the engine call fails, ExtractedText is
  empty once the call has settled, whatever it held before: \<^verbatim>\<open>extractText\<close> clears the
  text when the job starts and a failed call never writes it.
\<close>

theorem failed_extraction_leaves_empty_text:
  "file s \<noteq> None \<Longrightarrow> extractedText (fst (extractText fl msgs (Reject e) (s, w))) = []"
  by (auto simp: Let_def case_prod_beta foldl_logger_extractedText)

theorem failed_extraction_leaves_empty_text_witness:
  "file (init_state\<lparr>file := Some sample_png, extractedText := js ''abc''\<rparr>) \<noteq> None
   \<and> extractedText (fst (extractText id sample_msgs (Reject (JsError (js ''worker failed'')))
        (init_state\<lparr>file := Some sample_png, extractedText := js ''abc''\<rparr>, init_world))) = []"
proof -
  have h: "file (init_state\<lparr>file := Some sample_png, extractedText := js ''abc''\<rparr>) \<noteq> None"
    by simp
  from h failed_extraction_leaves_empty_text [OF h] show ?thesis
    by (rule conjI)
qed

text \<open>
  C1 as stated fails: after a successful recognition that left the text \<open>abc\<close>, a second
  extraction whose engine call fails leaves a text other than \<open>abc\<close>.
\<close>

theorem failed_reextraction_counterexample:
  "extractedText (fst (extractText id [] (Resolve (js ''abc''))
      (handleFile sample_png (init_state, init_world)))) = js ''abc''
   \<and> extractedText (fst (extractText id [] (Reject (JsError (js ''worker failed'')))
        (extractText id [] (Resolve (js ''abc''))
          (handleFile sample_png (init_state, init_world))))) \<noteq> js ''abc''"
  by (simp add: eval_defs)

text \<open>
  C2 (as amended). Accepting an artifact clears ExtractedText, adopts the artifact and
  registers one new object URL for it, which becomes the preview; no object URL is
  revoked, so the preview of the artifact before stays registered.
\<close>

theorem accept_clears_text_and_acquires_preview:
  assumes "file_type f \<in> set validTypes" and "file_size f \<le> 10485760"
  shows "extractedText (fst (handleFile f (s, w))) = []
    \<and> file (fst (handleFile f (s, w))) = Some f
    \<and> previewUrl (fst (handleFile f (s, w))) = js ''blob:'' @ decimal (url_counter w)
    \<and> url_store (snd (handleFile f (s, w))) =
        (js ''blob:'' @ decimal (url_counter w), FileObject f) # url_store w
    \<and> revoked (snd (handleFile f (s, w))) = revoked w"
  using assms by (simp add: createObjectURL_def toast_def Let_def)

theorem accept_clears_text_and_acquires_preview_witness:
  "file_type other_png \<in> set validTypes \<and> file_size other_png \<le> 10485760
   \<and> extractedText (fst (handleFile other_png
        (init_state\<lparr>file := Some sample_png, previewUrl := js ''blob:0'',
           extractedText := js ''abc''\<rparr>,
         init_world\<lparr>url_store := [(js ''blob:0'', FileObject sample_png)], url_counter := 1\<rparr>))) = []
   \<and> url_store (snd (handleFile other_png
        (init_state\<lparr>file := Some sample_png, previewUrl := js ''blob:0'',
           extractedText := js ''abc''\<rparr>,
         init_world\<lparr>url_store := [(js ''blob:0'', FileObject sample_png)], url_counter := 1\<rparr>))) =
       [(js ''blob:1'', FileObject other_png), (js ''blob:0'', FileObject sample_png)]"
proof -
  have h1: "file_type other_png \<in> set validTypes"
    by (simp add: eval_defs)
  have h2: "file_size other_png \<le> 10485760"
    by (simp add: eval_defs)
  show ?thesis
    using accept_clears_text_and_acquires_preview [OF h1 h2,
      of "init_state\<lparr>file := Some sample_png, previewUrl := js ''blob:0'',
            extractedText := js ''abc''\<rparr>"
         "init_world\<lparr>url_store := [(js ''blob:0'', FileObject sample_png)], url_counter := 1\<rparr>"]
    by (simp add: eval_defs decimal.simps digit_def)
qed

text \<open>
  C2 as stated fails: after a second artifact is accepted, no object URL has been revoked
  and the first artifact's preview URL still names the first artifact in the store.
\<close>

theorem preview_release_counterexample:
  "previewUrl (fst (handleFile sample_png (init_state, init_world))) \<noteq> []
   \<and> count_list (revoked (snd (handleFile other_png (handleFile sample_png (init_state, init_world)))))
       (previewUrl (fst (handleFile sample_png (init_state, init_world)))) = 0
   \<and> map_of (url_store (snd (handleFile other_png (handleFile sample_png (init_state, init_world)))))
       (previewUrl (fst (handleFile sample_png (init_state, init_world)))) = Some (FileObject sample_png)"
  by (simp add: eval_defs decimal_0 decimal_1)

text \<open>
  C3 (as amended). A candidate whose declared media type is outside the list
  \<open>image/jpeg\<close>, \<open>image/jpg\<close>, \<open>image/png\<close>, \<open>application/pdf\<close> is rejected with the
  notification "Invalid file type" and the state of the component does not change; a
  candidate whose type is in the list is not rejected by the type rule: the notification it
  gets is the one of the size rule or the one of acceptance, both different from
  "Invalid file type".
\<close>

theorem type_rule:
  "set validTypes = {js ''image/jpeg'', js ''image/jpg'', js ''image/png'', js ''application/pdf''}
   \<and> (file_type f \<notin> set validTypes \<longrightarrow>
        handleFile f (s, w) = (s, toast toast_invalid_type w))
   \<and> (file_type f \<in> set validTypes \<longrightarrow>
        toasts (snd (handleFile f (s, w))) =
          toasts w @ [if 10485760 < file_size f then toast_too_large else toast_uploaded]
        \<and> toast_invalid_type \<noteq> toast_too_large \<and> toast_invalid_type \<noteq> toast_uploaded)"
proof (intro conjI impI)
  show "set validTypes = {js ''image/jpeg'', js ''image/jpg'', js ''image/png'', js ''application/pdf''}"
    by (simp add: validTypes_def)
  show "toast_invalid_type \<noteq> toast_too_large"
    by (simp add: toast_invalid_type_def toast_too_large_def js_def)
  show "toast_invalid_type \<noteq> toast_uploaded"
    by (simp add: toast_invalid_type_def toast_uploaded_def js_def)
next
  assume "file_type f \<notin> set validTypes"
  then show "handleFile f (s, w) = (s, toast toast_invalid_type w)"
    by simp
next
  assume "file_type f \<in> set validTypes"
  then show "toasts (snd (handleFile f (s, w))) =
      toasts w @ [if 10485760 < file_size f then toast_too_large else toast_uploaded]"
    by (simp add: toast_def createObjectURL_def Let_def)
qed

theorem type_rule_witness:
  "file_type large_gif \<notin> set validTypes
   \<and> handleFile large_gif (init_state, init_world) = (init_state, toast toast_invalid_type init_world)
   \<and> file_type sample_png \<in> set validTypes
   \<and> toasts (snd (handleFile sample_png (init_state, init_world))) = [toast_uploaded]"
proof -
  have h1: "file_type large_gif \<notin> set validTypes"
    by (simp add: eval_defs)
  have h2: "file_type sample_png \<in> set validTypes"
    by (simp add: eval_defs)
  have s: "\<not> 10485760 < file_size sample_png" "toasts init_world = []"
    by (simp_all add: eval_defs)
  show ?thesis
    using h1 h2 type_rule [of large_gif init_state init_world]
      type_rule [of sample_png init_state init_world]
    by (simp only: s simp_thms if_False append_Nil)
qed

text \<open>
  C3 as stated fails: the declared type \<open>image/jpg\<close> is outside the three types of the
  claim, and a candidate with it is accepted, which changes the state.
\<close>

theorem jpg_alias_counterexample:
  "file_type jpg_alias \<notin> set [js ''image/jpeg'', js ''image/png'', js ''application/pdf'']
   \<and> file (fst (handleFile jpg_alias (init_state, init_world))) = Some jpg_alias
   \<and> fst (handleFile jpg_alias (init_state, init_world)) \<noteq> init_state
   \<and> toasts (snd (handleFile jpg_alias (init_state, init_world))) = [toast_uploaded]"
  by (simp add: eval_defs)

text \<open>
  C4. When an artifact is present and the engine call resolves with the text \<open>S\<close>,
  ExtractedText is exactly \<open>S\<close> once the call has settled, every code unit of it, white
  space and line ends included.
\<close>

theorem success_sets_text_verbatim:
  "file s \<noteq> None \<Longrightarrow> extractedText (fst (extractText fl msgs (Resolve S) (s, w))) = S"
  by (auto simp: Let_def case_prod_beta)

theorem success_sets_text_verbatim_witness:
  "file (init_state\<lparr>file := Some sample_png\<rparr>) \<noteq> None
   \<and> extractedText (fst (extractText id sample_msgs (Resolve (js ''  Hello,  world '' @ [0x0A, 0x0A]))
        (init_state\<lparr>file := Some sample_png\<rparr>, init_world))) = js ''  Hello,  world '' @ [0x0A, 0x0A]"
proof -
  have h: "file (init_state\<lparr>file := Some sample_png\<rparr>) \<noteq> None"
    by simp
  from h success_sets_text_verbatim [OF h] show ?thesis
    by (rule conjI)
qed



text \<open>
  C6. The type rule comes first, the size rule second. A candidate that passes the type
  rule is rejected with "File too large", the state unchanged, when its size is above
  10,485,760 bytes, and is accepted when its size is at most 10,485,760 bytes; a candidate
  that fails both rules is rejected with "Invalid file type", which is another
  notification than "File too large".
\<close>

theorem validation_order:
  "(file_type f \<in> set validTypes \<and> 10485760 < file_size f \<longrightarrow>
      handleFile f (s, w) = (s, toast toast_too_large w))
   \<and> (file_type f \<in> set validTypes \<and> file_size f \<le> 10485760 \<longrightarrow>
      file (fst (handleFile f (s, w))) = Some f
      \<and> toasts (snd (handleFile f (s, w))) = toasts w @ [toast_uploaded])
   \<and> (file_type f \<notin> set validTypes \<and> 10485760 < file_size f \<longrightarrow>
      handleFile f (s, w) = (s, toast toast_invalid_type w)
      \<and> toast_invalid_type \<noteq> toast_too_large)"
proof (intro conjI impI)
  assume "file_type f \<in> set validTypes \<and> 10485760 < file_size f"
  then show "handleFile f (s, w) = (s, toast toast_too_large w)"
    by simp
next
  assume a: "file_type f \<in> set validTypes \<and> file_size f \<le> 10485760"
  then show "file (fst (handleFile f (s, w))) = Some f"
    by (simp add: createObjectURL_def Let_def)
  from a show "toasts (snd (handleFile f (s, w))) = toasts w @ [toast_uploaded]"
    by (simp add: createObjectURL_def toast_def Let_def)
next
  assume "file_type f \<notin> set validTypes \<and> 10485760 < file_size f"
  then show "handleFile f (s, w) = (s, toast toast_invalid_type w)"
    by simp
next
  show "toast_invalid_type \<noteq> toast_too_large"
    by (simp add: toast_invalid_type_def toast_too_large_def js_def)
qed

theorem validation_order_witness:
  "(file_type large_jpeg \<in> set validTypes \<and> 10485760 < file_size large_jpeg)
   \<and> handleFile large_jpeg (init_state, init_world) = (init_state, toast toast_too_large init_world)
   \<and> (file_type (sample_png\<lparr>file_size := 10485760\<rparr>) \<in> set validTypes
        \<and> file_size (sample_png\<lparr>file_size := 10485760\<rparr>) \<le> 10485760)
   \<and> file (fst (handleFile (sample_png\<lparr>file_size := 10485760\<rparr>) (init_state, init_world)))
        = Some (sample_png\<lparr>file_size := 10485760\<rparr>)
   \<and> (file_type large_gif \<notin> set validTypes \<and> 10485760 < file_size large_gif)
   \<and> handleFile large_gif (init_state, init_world) = (init_state, toast toast_invalid_type init_world)"
proof -
  have h1: "file_type large_jpeg \<in> set validTypes \<and> 10485760 < file_size large_jpeg"
    by (simp add: eval_defs)
  have h2: "file_type (sample_png\<lparr>file_size := 10485760\<rparr>) \<in> set validTypes
        \<and> file_size (sample_png\<lparr>file_size := 10485760\<rparr>) \<le> 10485760"
    by (simp add: eval_defs)
  have h3: "file_type large_gif \<notin> set validTypes \<and> 10485760 < file_size large_gif"
    by (simp add: eval_defs)
  show ?thesis
    using h1 h2 h3
      validation_order [of large_jpeg init_state init_world]
      validation_order [of "sample_png\<lparr>file_size := 10485760\<rparr>" init_state init_world]
      validation_order [of large_gif init_state init_world]
    by blast
qed

text \<open>
  C7. When an artifact is present, so that a job is started, the progress is 0 and the
  processing flag is off once the call has settled, whether the engine call resolved or
  was rejected.
\<close>

theorem settle_resets_job:
  "file s \<noteq> None \<Longrightarrow>
     progress (fst (extractText fl msgs outcome (s, w))) = 0
     \<and> \<not> isProcessing (fst (extractText fl msgs outcome (s, w)))"
  by (cases outcome) (auto simp: Let_def case_prod_beta)

theorem settle_resets_job_witness:
  "file (init_state\<lparr>file := Some sample_png, progress := 55, isProcessing := True\<rparr>) \<noteq> None
   \<and> (progress (fst (extractText id sample_msgs (Reject (JsError (js ''worker failed'')))
          (init_state\<lparr>file := Some sample_png, progress := 55, isProcessing := True\<rparr>, init_world))) = 0
      \<and> \<not> isProcessing (fst (extractText id sample_msgs (Reject (JsError (js ''worker failed'')))
          (init_state\<lparr>file := Some sample_png, progress := 55, isProcessing := True\<rparr>, init_world))))"
proof -
  have h: "file (init_state\<lparr>file := Some sample_png, progress := 55, isProcessing := True\<rparr>) \<noteq> None"
    by simp
  from h settle_resets_job [OF h] show ?thesis
    by (rule conjI)
qed

text \<open>
  C8. With an empty ExtractedText, \<^verbatim>\<open>copyToClipboard\<close> and \<^verbatim>\<open>downloadText\<close> change
  nothing. With a non-empty text \<open>T\<close>: when the clipboard accepts the write it holds
  exactly \<open>T\<close>; when it denies it, the "Copy failed" notification is shown and neither
  the text nor the clipboard changes; and \<^verbatim>\<open>downloadText\<close> leaves the text as it is and
  saves, under the name \<open>extracted-text-\<close>, the decimal digits of the clock value,
  \<open>.txt\<close>, a blob of type \<open>text/plain\<close> made of \<open>T\<close> alone.
\<close>

theorem export_actions:
  "(extractedText s = [] \<longrightarrow>
      copyToClipboard granted (s, w) = (s, w) \<and> downloadText now (s, w) = (s, w))
   \<and> (extractedText s \<noteq> [] \<longrightarrow>
      copyToClipboard True (s, w) = (s, toast toast_copied (w\<lparr>clipboard := extractedText s\<rparr>))
      \<and> copyToClipboard False (s, w) = (s, toast toast_copy_failed w)
      \<and> fst (downloadText now (s, w)) = s
      \<and> downloads (snd (downloadText now (s, w))) =
          downloads w @
            [(js ''extracted-text-'' @ decimal now @ js ''.txt'',
              BlobObject \<lparr>blob_parts = [extractedText s], blob_type = js ''text/plain''\<rparr>)])"
  by (simp add: createObjectURL_def anchor_click_def revokeObjectURL_def toast_def Let_def)

theorem export_actions_witness:
  "extractedText init_state = []
   \<and> copyToClipboard True (init_state, init_world) = (init_state, init_world)
   \<and> downloadText 1730000000000 (init_state, init_world) = (init_state, init_world)
   \<and> extractedText (init_state\<lparr>extractedText := js ''hello world''\<rparr>) \<noteq> []
   \<and> clipboard (snd (copyToClipboard True
        (init_state\<lparr>extractedText := js ''hello world''\<rparr>, init_world))) = js ''hello world''
   \<and> clipboard (snd (copyToClipboard False
        (init_state\<lparr>extractedText := js ''hello world''\<rparr>, init_world))) = []
   \<and> downloads (snd (downloadText 1730000000000
        (init_state\<lparr>extractedText := js ''hello world''\<rparr>, init_world))) =
       [(js ''extracted-text-1730000000000.txt'',
         BlobObject \<lparr>blob_parts = [js ''hello world''], blob_type = js ''text/plain''\<rparr>)]"
proof -
  have h1: "extractedText init_state = []"
    by (simp add: init_state_def)
  have h2: "extractedText (init_state\<lparr>extractedText := js ''hello world''\<rparr>) \<noteq> []"
    by (simp add: js_def)
  have n: "js ''extracted-text-'' @ decimal 1730000000000 @ js ''.txt''
      = js ''extracted-text-1730000000000.txt''"
    by (simp add: decimal.simps digit_def js_def)
  have e: "extractedText (init_state\<lparr>extractedText := js ''hello world''\<rparr>) = js ''hello world''"
    by simp
  have w: "clipboard init_world = []" "downloads init_world = []"
    by (simp_all add: init_world_def)
  show ?thesis
    using h1 h2
      export_actions [of init_state True init_world 1730000000000]
      export_actions [of "init_state\<lparr>extractedText := js ''hello world''\<rparr>" True init_world 1730000000000]
    by (simp add: n w toast_def)
qed

text \<open>
  C9. The claim is that the word count shown is the number of white-space-delimited
  non-empty tokens of the text and the character count its length. The character count
  is; the word count is not on a text that ends with white space, as a recognized text
  does (it ends with a line feed): for \<open>hello world\<close> followed by a line feed the page
  shows 3 words and 12 characters, and the text has 2 white-space-delimited non-empty
  tokens. The split leaves an empty piece after the last run of white space, and the page
  counts it. Where the text neither starts nor ends with white space the two counts
  agree (\<open>stats_agrees_without_outer_space\<close>), as they do on \<open>hello world\<close>.
\<close>

theorem word_count_trailing_whitespace:
  "stats (init_state\<lparr>extractedText := js ''hello world'' @ [0x0A]\<rparr>) = Some (3, 12)
   \<and> spec_word_count (js ''hello world'' @ [0x0A]) = 2"
  by (simp add: stats_def spec_word_count_def split_ws.simps js_def is_space_def init_state_def)

text \<open>
  C10. When no artifact is present, \<^verbatim>\<open>extractText\<close> returns at once: the state of the
  component (progress, processing flag and ExtractedText among it) is unchanged, and so
  is everything outside it; in particular no call to the engine is made.
\<close>

theorem extract_without_file_is_noop:
  "file s = None \<Longrightarrow> extractText fl msgs outcome (s, w) = (s, w)"
  by simp

theorem extract_without_file_is_noop_witness:
  "file init_state = None
   \<and> extractText id sample_msgs (Resolve (js ''abc'')) (init_state, init_world) = (init_state, init_world)"
proof -
  have h: "file init_state = None"
    by (simp add: init_state_def)
  from h extract_without_file_is_noop [OF h] show ?thesis
    by (rule conjI)
qed

end
